theory Spec2Isabelle
  imports Main
begin

section \<open>The quantum402 gateway: data\<close>

text \<open>
  The gateway is an Express application (\<^verbatim>\<open>src/server/index.js\<close>) over two pieces of
  module state (\<^verbatim>\<open>src/server/storage.js\<close>), the wallet verifiers
  (\<^verbatim>\<open>src/server/verify.js\<close>) and the gateway's own signing helpers (\<^verbatim>\<open>crypto.js\<close>).

  A JavaScript string is modelled by its UTF-8 bytes, a \<^typ>\<open>string\<close>; a byte array
  (\<^verbatim>\<open>Uint8Array\<close>, \<^verbatim>\<open>Buffer\<close>) is a \<^typ>\<open>string\<close> as well. The fields of an
  invoice and of a receipt have the types that \<^verbatim>\<open>/api/invoice\<close> and \<^verbatim>\<open>/api/settle\<close>
  give them: strings, and whole seconds (an \<^typ>\<open>int\<close>) for \<^verbatim>\<open>ts\<close> and \<^verbatim>\<open>ttl\<close>.
  A part of a request that may be absent is an \<^typ>\<open>'a option\<close>, with \<^const>\<open>None\<close>
  for \<^verbatim>\<open>undefined\<close>. A thrown exception is a value \<^verbatim>\<open>Inl e\<close> of a sum type.
\<close>

datatype exn = Exn string

text \<open>
  The fields that an invoice and a receipt share are the parent record; the invoice adds
  \<^verbatim>\<open>wallet\<close>, the receipt adds \<^verbatim>\<open>payer\<close>, \<^verbatim>\<open>gatewayPubkey\<close> and \<^verbatim>\<open>sig\<close>.
\<close>

record priced =
  feature :: string
  amount :: string
  unit :: string
  ttl :: int
  nonce :: string
  merkleId :: string
  ts :: int

record invoice = priced +
  wallet :: string

record receipt = priced +
  payer :: "string option"
  gatewayPubkey :: string
  sig :: string

record walletProof =
  kind :: "string option"
  account :: "string option"
  signatureBase64 :: "string option"
  signatureHex :: "string option"

text \<open>The keypair \<^verbatim>\<open>kp\<close> that \<^verbatim>\<open>makeGatewayKeypair\<close> returns.\<close>

record keypair =
  publicKey :: string
  secretKey :: string

text \<open>
  A handler answers with \<^verbatim>\<open>{ ok: true, ... }\<close> or with an HTTP status and
  \<^verbatim>\<open>{ ok: false, error }\<close>.
\<close>

datatype 'a response = Ok 'a | Fail nat string

section \<open>The libraries the gateway calls\<close>

text \<open>
  \<^verbatim>\<open>tweetnacl\<close>, \<^verbatim>\<open>bs58\<close>, \<^verbatim>\<open>ethers\<close> and Node's \<^verbatim>\<open>Buffer\<close> are not part of the
  repository; the model takes them as a parameter. A function that can throw returns a
  sum. \<^verbatim>\<open>ethers.verifyMessage\<close> is called once with the message as a string and once
  with the bytes of \<^verbatim>\<open>ethers.getBytes\<close>, which the two constructors of the payload keep apart.
  \<^verbatim>\<open>nacl.sign.detached\<close> only throws on a secret key of the wrong size, which a key made
  by \<^verbatim>\<open>nacl.sign.keyPair\<close> never has, so it is a total function here.
\<close>

datatype payload = Text string | Raw string

record libs =
  bs58_decode :: "string option \<Rightarrow> exn + string"
  buffer_from_base64 :: "string option \<Rightarrow> exn + string"
  buffer_to_base64 :: "string \<Rightarrow> string"
  nacl_sign_detached :: "string \<Rightarrow> string \<Rightarrow> string"
  nacl_sign_detached_verify :: "string \<Rightarrow> string \<Rightarrow> string \<Rightarrow> exn + bool"
  ethers_verifyMessage :: "payload \<Rightarrow> string option \<Rightarrow> exn + string"
  ethers_getBytes :: "string \<Rightarrow> exn + string"

section \<open>storage.js\<close>

record store =
  receipts :: "receipt list"
  usedNonces :: "string \<rightharpoonup> int"

text \<open>
  \<^verbatim>\<open>receipts.unshift(r); if (receipts.length > 500) receipts.pop();\<close>
\<close>

definition rememberReceipt :: "receipt \<Rightarrow> store \<Rightarrow> store" where
  "rememberReceipt r s =
     (let rs = r # receipts s
      in s\<lparr>receipts := (if length rs > 500 then butlast rs else rs)\<rparr>)"

definition markNonce :: "string \<Rightarrow> int \<Rightarrow> store \<Rightarrow> store" where
  "markNonce n expireAt s = s\<lparr>usedNonces := (usedNonces s)(n \<mapsto> expireAt)\<rparr>"

text \<open>
  \<^verbatim>\<open>!!exp && exp >= now\<close>: a missing entry is \<^verbatim>\<open>undefined\<close> and an expiry of \<^verbatim>\<open>0\<close>
  is falsy too.
\<close>

definition seenNonce :: "int \<Rightarrow> string \<Rightarrow> store \<Rightarrow> bool" where
  "seenNonce now n s =
     (case usedNonces s n of
        None \<Rightarrow> False
      | Some exp \<Rightarrow> exp \<noteq> 0 \<and> exp \<ge> now)"

text \<open>
  The loop deletes every entry with \<^verbatim>\<open>exp < now\<close>; deleting from a \<^verbatim>\<open>Map\<close> while
  iterating over it still visits every other entry.
\<close>

definition cleanupNonces :: "int \<Rightarrow> store \<Rightarrow> store" where
  "cleanupNonces now s =
     s\<lparr>usedNonces :=
         (\<lambda>k. case usedNonces s k of
                 None \<Rightarrow> None
               | Some exp \<Rightarrow> if exp < now then None else Some exp)\<rparr>"

section \<open>crypto.js\<close>

definition strToBytes :: "string \<Rightarrow> string" where
  "strToBytes s = s"

definition fromB64 :: "libs \<Rightarrow> string option \<Rightarrow> exn + string" where
  "fromB64 X s = buffer_from_base64 X s"

definition toB64 :: "libs \<Rightarrow> string \<Rightarrow> string" where
  "toB64 X u8 = buffer_to_base64 X u8"

definition signGateway :: "libs \<Rightarrow> string \<Rightarrow> string \<Rightarrow> string" where
  "signGateway X msgStr sk = toB64 X (nacl_sign_detached X (strToBytes msgStr) sk)"

definition verifyGateway :: "libs \<Rightarrow> string \<Rightarrow> string option \<Rightarrow> string \<Rightarrow> exn + bool" where
  "verifyGateway X msgStr sigB64 publicKeyU8 =
     (case fromB64 X sigB64 of
        Inl e \<Rightarrow> Inl e
      | Inr sg \<Rightarrow> nacl_sign_detached_verify X (strToBytes msgStr) sg publicKeyU8)"

section \<open>verify.js\<close>

text \<open>
  \<^verbatim>\<open>String.prototype.toLowerCase\<close> on the ASCII letters; calling it on a value that is
  not a string throws a \<^verbatim>\<open>TypeError\<close>.
\<close>

definition lowerChar :: "char \<Rightarrow> char" where
  "lowerChar c =
     (case map_of (zip ''ABCDEFGHIJKLMNOPQRSTUVWXYZ'' ''abcdefghijklmnopqrstuvwxyz'') c of
        None \<Rightarrow> c
      | Some l \<Rightarrow> l)"

definition toLowerCase :: "string option \<Rightarrow> exn + string" where
  "toLowerCase v =
     (case v of
        None \<Rightarrow> Inl (Exn ''TypeError'')
      | Some s \<Rightarrow> Inr (map lowerChar s))"

text \<open>
  The whole body of \<^verbatim>\<open>verifySolanaMessage\<close> stands in one \<^verbatim>\<open>try\<close>, whose
  \<^verbatim>\<open>catch\<close> returns \<^verbatim>\<open>false\<close>.
\<close>

definition verifySolanaMessage ::
  "libs \<Rightarrow> string \<Rightarrow> string option \<Rightarrow> string option \<Rightarrow> exn + bool" where
  "verifySolanaMessage X message sigB64 acct =
     (case (case bs58_decode X acct of
              Inl e \<Rightarrow> Inl e
            | Inr pub \<Rightarrow>
                (case buffer_from_base64 X sigB64 of
                   Inl e \<Rightarrow> Inl e
                 | Inr sg \<Rightarrow> nacl_sign_detached_verify X (strToBytes message) sg pub)) of
        Inl e \<Rightarrow> Inr False
      | Inr b \<Rightarrow> Inr b)"

text \<open>
  \<^verbatim>\<open>recovered.toLowerCase() === account.toLowerCase()\<close>, the comparison both attempts
  of \<^verbatim>\<open>verifyEvmMessage\<close> make.
\<close>

definition sameAddress :: "string \<Rightarrow> string option \<Rightarrow> exn + bool" where
  "sameAddress recovered acct =
     (case toLowerCase (Some recovered) of
        Inl e \<Rightarrow> Inl e
      | Inr r \<Rightarrow> (case toLowerCase acct of Inl e \<Rightarrow> Inl e | Inr a \<Rightarrow> Inr (r = a)))"

text \<open>
  The first \<^verbatim>\<open>try\<close> returns only when the recovered address matches and swallows
  every exception; the second returns the comparison, or \<^verbatim>\<open>false\<close> on an exception.
\<close>

definition verifyEvmMessage ::
  "libs \<Rightarrow> string \<Rightarrow> string option \<Rightarrow> string option \<Rightarrow> exn + bool" where
  "verifyEvmMessage X message sigHex acct =
     (case (case ethers_verifyMessage X (Text message) sigHex of
              Inl e \<Rightarrow> Inl e
            | Inr recovered1 \<Rightarrow> sameAddress recovered1 acct) of
        Inr True \<Rightarrow> Inr True
      | _ \<Rightarrow>
          (case (case ethers_getBytes X message of
                   Inl e \<Rightarrow> Inl e
                 | Inr bs \<Rightarrow>
                     (case ethers_verifyMessage X (Raw bs) sigHex of
                        Inl e \<Rightarrow> Inl e
                      | Inr recovered2 \<Rightarrow> sameAddress recovered2 acct)) of
             Inl e \<Rightarrow> Inr False
           | Inr b \<Rightarrow> Inr b))"

section \<open>index.js\<close>

text \<open>
  \<^verbatim>\<open>Array.prototype.join\<close> turns a number into its decimal numeral (for the whole
  seconds below \<^verbatim>\<open>1e21\<close> that a timestamp is) and puts the separator between the
  elements.
\<close>

definition digit :: "nat \<Rightarrow> char" where
  "digit d = ''0123456789'' ! d"

fun decimal :: "nat \<Rightarrow> string" where
  "decimal n = (if n < 10 then [digit n] else decimal (n div 10) @ [digit (n mod 10)])"

declare decimal.simps [simp del]

definition numberToString :: "int \<Rightarrow> string" where
  "numberToString i = (if i < 0 then CHR ''-'' # decimal (nat (- i)) else decimal (nat i))"

fun join :: "string \<Rightarrow> string list \<Rightarrow> string" where
  "join sep [] = []"
| "join sep [x] = x"
| "join sep (x # y # ys) = x @ sep @ join sep (y # ys)"

definition gatewayPubB64 :: "libs \<Rightarrow> keypair \<Rightarrow> string" where
  "gatewayPubB64 X kp = buffer_to_base64 X (publicKey kp)"

definition isFresh :: "int \<Rightarrow> int \<Rightarrow> int \<Rightarrow> bool" where
  "isFresh now t l = (now - t \<le> l)"

definition messageFromInvoice :: "invoice \<Rightarrow> string" where
  "messageFromInvoice iv =
     join ''|'' [feature iv, amount iv, unit iv, nonce iv, merkleId iv,
                 numberToString (ts iv)]"

definition messageFromReceipt :: "receipt \<Rightarrow> string" where
  "messageFromReceipt rcpt =
     join ''|'' [feature rcpt, amount rcpt, unit rcpt, nonce rcpt, merkleId rcpt,
                 numberToString (ts rcpt)]"

text \<open>
  The wallet verifier that \<^verbatim>\<open>/api/settle\<close> picks by \<^verbatim>\<open>walletProof.kind\<close>;
  \<^verbatim>\<open>verified\<close> stays \<^verbatim>\<open>false\<close> for any other kind. Each branch is entered in the log
  of verifier calls that the handler returns next to its answer.
\<close>

datatype verifierCall = SolanaCall string | EvmCall string

definition verifyWallet :: "libs \<Rightarrow> string \<Rightarrow> walletProof \<Rightarrow> (exn + bool) \<times> verifierCall list" where
  "verifyWallet X msg wp =
     (if kind wp = Some ''solana''
        then (verifySolanaMessage X msg (signatureBase64 wp) (account wp), [SolanaCall msg])
      else if kind wp = Some ''evm''
        then (verifyEvmMessage X msg (signatureHex wp) (account wp), [EvmCall msg])
      else (Inr False, []))"

text \<open>
  The receipt literal of \<^verbatim>\<open>/api/settle\<close>, then \<^verbatim>\<open>receipt.sig = signGateway(...)\<close>.
  The literal has no \<^verbatim>\<open>sig\<close> yet, which the message does not read; the record starts
  with an empty one.
\<close>

definition makeReceipt :: "libs \<Rightarrow> keypair \<Rightarrow> invoice \<Rightarrow> walletProof \<Rightarrow> receipt" where
  "makeReceipt X kp iv wp =
     (let rcpt = \<lparr>feature = feature iv, amount = amount iv, unit = unit iv,
                  ttl = ttl iv, nonce = nonce iv, merkleId = merkleId iv, ts = ts iv,
                  payer = account wp, gatewayPubkey = gatewayPubB64 X kp, sig = []\<rparr>
      in rcpt\<lparr>sig := signGateway X (messageFromReceipt rcpt) (secretKey kp)\<rparr>)"

text \<open>
  A handler reads the clock where the source does: \<^verbatim>\<open>nowSec()\<close> in \<^verbatim>\<open>isFresh\<close>,
  \<^verbatim>\<open>Date.now()\<close> in \<^verbatim>\<open>seenNonce\<close> and again in \<^verbatim>\<open>cleanupNonces\<close>. The three
  readings of one request are its clock; a request served within one second reads the
  same value three times.
\<close>

record clock =
  nowFresh :: int
  nowSeen :: int
  nowCleanup :: int

definition instant :: "int \<Rightarrow> clock" where
  "instant t = \<lparr>nowFresh = t, nowSeen = t, nowCleanup = t\<rparr>"

text \<open>
  \<^verbatim>\<open>app.post('/api/settle')\<close>. The result is the answer, the module state afterwards and
  the verifier calls made. An exception that reaches the handler's \<^verbatim>\<open>catch\<close> gives
  \<^verbatim>\<open>server-error\<close>.
\<close>

definition settle ::
  "libs \<Rightarrow> keypair \<Rightarrow> clock \<Rightarrow> invoice option \<Rightarrow> walletProof option \<Rightarrow> store
     \<Rightarrow> receipt response \<times> store \<times> verifierCall list" where
  "settle X kp clk invoice walletProof s =
     (case (invoice, walletProof) of
        (Some iv, Some wp) \<Rightarrow>
          if \<not> isFresh (nowFresh clk) (ts iv) (ttl iv) then (Fail 400 ''expired'', s, [])
          else if seenNonce (nowSeen clk) (nonce iv) s then (Fail 409 ''replay'', s, [])
          else
            (let msg = messageFromInvoice iv;
                 (verified, calls) = verifyWallet X msg wp
             in case verified of
                  Inl e \<Rightarrow> (Fail 500 ''server-error'', s, calls)
                | Inr False \<Rightarrow> (Fail 401 ''bad-wallet-proof'', s, calls)
                | Inr True \<Rightarrow>
                    (let s1 = markNonce (nonce iv) (ts iv + ttl iv) s;
                         s2 = cleanupNonces (nowCleanup clk) s1;
                         rcpt = makeReceipt X kp iv wp
                     in (Ok rcpt, rememberReceipt rcpt s2, calls)))
      | _ \<Rightarrow> (Fail 400 ''missing-body'', s, []))"

text \<open>
  \<^verbatim>\<open>app.post('/api/verify')\<close>, which reads the clock in \<^verbatim>\<open>isFresh\<close> and in
  \<^verbatim>\<open>seenNonce\<close>; a success carries the \<^verbatim>\<open>replayProtected\<close> flag. The failures \<^verbatim>\<open>expired\<close> and \<^verbatim>\<open>bad-sig\<close> are sent with status 200.
\<close>

definition verifyReceipt :: "libs \<Rightarrow> clock \<Rightarrow> receipt option \<Rightarrow> store \<Rightarrow> bool response" where
  "verifyReceipt X clk receipt s =
     (case receipt of
        None \<Rightarrow> Fail 400 ''missing-receipt''
      | Some rcpt \<Rightarrow>
          if \<not> isFresh (nowFresh clk) (ts rcpt) (ttl rcpt) then Fail 200 ''expired''
          else
            (case (case buffer_from_base64 X (Some (gatewayPubkey rcpt)) of
                     Inl e \<Rightarrow> Inl e
                   | Inr pk \<Rightarrow> verifyGateway X (messageFromReceipt rcpt) (Some (sig rcpt)) pk) of
               Inl e \<Rightarrow> Fail 500 ''server-error''
             | Inr ok \<Rightarrow>
                 if \<not> ok then Fail 200 ''bad-sig''
                 else Ok (seenNonce (nowSeen clk) (nonce rcpt) s)))"


section \<open>A small instance of the libraries\<close>

text \<open>
  To run the handlers on concrete requests the library parameter needs a value. This one
  is deterministic and tiny: base58 and base64 are the identity on strings and throw on
  a value that is not a string, a signature is the signer's key followed by the message,
  and the size checks of \<^verbatim>\<open>nacl.sign.detached.verify\<close> are the checks for an empty
  signature or key. The recoverable scheme signs with the four-character address followed
  by the payload, and \<^verbatim>\<open>getBytes\<close> accepts only a \<^verbatim>\<open>0x\<close> string.
\<close>

definition sampleLibs :: libs where
  "sampleLibs =
     \<lparr>bs58_decode = (\<lambda>a. case a of None \<Rightarrow> Inl (Exn ''TypeError'') | Some t \<Rightarrow> Inr t),
      buffer_from_base64 = (\<lambda>a. case a of None \<Rightarrow> Inl (Exn ''TypeError'') | Some t \<Rightarrow> Inr t),
      buffer_to_base64 = (\<lambda>b. b),
      nacl_sign_detached = (\<lambda>m sk. sk @ m),
      nacl_sign_detached_verify =
        (\<lambda>m sg pk. if sg = [] then Inl (Exn ''bad signature size'')
                    else if pk = [] then Inl (Exn ''bad public key size'')
                    else Inr (sg = pk @ m)),
      ethers_verifyMessage =
        (\<lambda>p sg. case sg of
                   None \<Rightarrow> Inl (Exn ''TypeError'')
                 | Some t \<Rightarrow>
                     if length t < 4 then Inl (Exn ''invalid signature'')
                     else Inr (if drop 4 t = (case p of Text m \<Rightarrow> m | Raw b \<Rightarrow> b)
                               then take 4 t else ''0x00'')),
      ethers_getBytes =
        (\<lambda>m. if take 2 m = ''0x'' then Inr (drop 2 m)
              else Inl (Exn ''invalid BytesLike value''))\<rparr>"

definition sampleKeypair :: keypair where
  "sampleKeypair = \<lparr>publicKey = ''G'', secretKey = ''G''\<rparr>"

definition sampleInvoice :: invoice where
  "sampleInvoice =
     \<lparr>feature = ''api.translate'', amount = ''0.01'', unit = ''SOL'', ttl = 90,
      nonce = ''n1'', merkleId = ''m1'', ts = 100, wallet = ''phantom''\<rparr>"

definition sampleProof :: walletProof where
  "sampleProof =
     \<lparr>kind = Some ''solana'', account = Some ''W'',
      signatureBase64 = Some ''Wapi.translate|0.01|SOL|n1|m1|100'', signatureHex = None\<rparr>"

definition sampleReceipt :: receipt where
  "sampleReceipt =
     \<lparr>feature = ''api.translate'', amount = ''0.01'', unit = ''SOL'', ttl = 90,
      nonce = ''n1'', merkleId = ''m1'', ts = 100, payer = Some ''W'',
      gatewayPubkey = ''G'', sig = ''Gapi.translate|0.01|SOL|n1|m1|100''\<rparr>"

definition emptyStore :: store where
  "emptyStore = \<lparr>receipts = [], usedNonces = Map.empty\<rparr>"

text \<open>The module state after \<^const>\<open>sampleInvoice\<close> has been settled at time 150.\<close>

definition settledStore :: store where
  "settledStore = \<lparr>receipts = [sampleReceipt], usedNonces = [''n1'' \<mapsto> 190]\<rparr>"

text \<open>A second invoice that reuses the nonce \<^verbatim>\<open>n1\<close> with a later timestamp.\<close>

definition laterInvoice :: invoice where
  "laterInvoice = sampleInvoice\<lparr>ts := 200\<rparr>"

definition laterProof :: walletProof where
  "laterProof = sampleProof\<lparr>signatureBase64 := Some ''Wapi.translate|0.01|SOL|n1|m1|200''\<rparr>"

definition forgedProof :: walletProof where
  "forgedProof = sampleProof\<lparr>signatureBase64 := Some ''Wapi.translate|9.99|SOL|n1|m1|100''\<rparr>"

definition evmProof :: walletProof where
  "evmProof =
     \<lparr>kind = Some ''evm'', account = Some ''0XAB'', signatureBase64 = None,
      signatureHex = Some ''0xabapi.translate|0.01|SOL|n1|m1|100''\<rparr>"

definition fullArchive :: store where
  "fullArchive = \<lparr>receipts = replicate 500 sampleReceipt, usedNonces = Map.empty\<rparr>"

definition sampleLedger :: store where
  "sampleLedger = \<lparr>receipts = [], usedNonces = [''n0'' \<mapsto> 100, ''n1'' \<mapsto> 190]\<rparr>"

section \<open>Evaluating the model\<close>

lemmas sample_defs = sampleLibs_def sampleKeypair_def sampleInvoice_def sampleProof_def
  sampleReceipt_def emptyStore_def settledStore_def laterInvoice_def laterProof_def
  forgedProof_def evmProof_def fullArchive_def sampleLedger_def

lemmas run_defs = settle_def isFresh_def seenNonce_def verifyWallet_def verifySolanaMessage_def
  verifyEvmMessage_def sameAddress_def toLowerCase_def lowerChar_def
  messageFromInvoice_def messageFromReceipt_def numberToString_def decimal.simps digit_def
  strToBytes_def makeReceipt_def gatewayPubB64_def signGateway_def verifyGateway_def
  toB64_def fromB64_def markNonce_def cleanupNonces_def rememberReceipt_def verifyReceipt_def
  instant_def Let_def

section \<open>The archive of receipts\<close>

lemma rememberReceipt_receipts:
  "receipts (rememberReceipt r s) =
     (if length (receipts s) \<ge> 500 then r # butlast (receipts s) else r # receipts s)"
  by (cases "receipts s" rule: rev_cases) (auto simp: rememberReceipt_def Let_def)

lemma rememberReceipt_usedNonces [simp]:
  "usedNonces (rememberReceipt r s) = usedNonces s"
  by (simp add: rememberReceipt_def Let_def)

lemma fold_rememberReceipt_length:
  "length (receipts s) \<le> 500 \<Longrightarrow> length (receipts (fold rememberReceipt rs s)) \<le> 500"
proof (induction rs arbitrary: s)
  case Nil
  then show ?case by simp
next
  case (Cons r rs)
  have "length (receipts (rememberReceipt r s)) \<le> 500"
    using Cons.prems by (simp add: rememberReceipt_receipts)
  then show ?case using Cons.IH by simp
qed

lemma rememberReceipt_hd: "hd (receipts (rememberReceipt r s)) = r"
  by (simp add: rememberReceipt_receipts)

lemma fold_rememberReceipt_hd:
  "rs \<noteq> [] \<Longrightarrow> hd (receipts (fold rememberReceipt rs s)) = last rs"
proof (induction rs arbitrary: s)
  case Nil
  then show ?case by simp
next
  case (Cons r rs)
  show ?case
  proof (cases "rs = []")
    case True
    then show ?thesis by (simp add: rememberReceipt_hd)
  next
    case False
    then show ?thesis using Cons.IH by simp
  qed
qed

section \<open>The wallet verifiers never throw\<close>

lemma verifySolanaMessage_iff:
  "verifySolanaMessage X m sg a =
     Inr (\<exists>pub bs. bs58_decode X a = Inr pub \<and> buffer_from_base64 X sg = Inr bs
                  \<and> nacl_sign_detached_verify X (strToBytes m) bs pub = Inr True)"
  by (auto simp: verifySolanaMessage_def split: sum.splits)

lemma verifySolanaMessage_raise:
  "bs58_decode X a = Inl e \<Longrightarrow> verifySolanaMessage X m sg a = Inr False"
  "buffer_from_base64 X sg = Inl e \<Longrightarrow> verifySolanaMessage X m sg a = Inr False"
  "bs58_decode X a = Inr pub \<Longrightarrow> buffer_from_base64 X sg = Inr bs \<Longrightarrow>
     nacl_sign_detached_verify X (strToBytes m) bs pub = Inl e \<Longrightarrow>
     verifySolanaMessage X m sg a = Inr False"
  by (auto simp: verifySolanaMessage_def split: sum.splits)

lemma verifyEvmMessage_iff:
  "verifyEvmMessage X m sh a =
     Inr ((\<exists>r. ethers_verifyMessage X (Text m) sh = Inr r \<and> sameAddress r a = Inr True)
        \<or> (\<exists>bs r. ethers_getBytes X m = Inr bs \<and> ethers_verifyMessage X (Raw bs) sh = Inr r
                  \<and> sameAddress r a = Inr True))"
  by (auto simp: verifyEvmMessage_def split: sum.splits bool.splits)

lemma sameAddress_None: "sameAddress r None = Inl (Exn ''TypeError'')"
  by (simp add: sameAddress_def toLowerCase_def)

lemma verifyEvmMessage_raise:
  "ethers_verifyMessage X (Text m) sh = Inl e \<Longrightarrow> ethers_getBytes X m = Inl e' \<Longrightarrow>
     verifyEvmMessage X m sh a = Inr False"
  "verifyEvmMessage X m sh None = Inr False"
  by (auto simp: verifyEvmMessage_def sameAddress_None split: sum.splits bool.splits)

lemma verifySolanaMessage_total: "\<exists>b. verifySolanaMessage X m sg a = Inr b"
  by (auto simp: verifySolanaMessage_def split: sum.splits)

lemma verifyEvmMessage_total: "\<exists>b. verifyEvmMessage X m sg a = Inr b"
  by (auto simp: verifyEvmMessage_def split: sum.splits bool.splits)

lemma verifyWallet_total: "\<exists>b. fst (verifyWallet X m wp) = Inr b"
  using verifySolanaMessage_total verifyEvmMessage_total by (auto simp: verifyWallet_def)

section \<open>The paths through settle\<close>

lemma settle_cases:
  "settle X kp clk (Some iv) (Some wp) s =
     (if \<not> isFresh (nowFresh clk) (ts iv) (ttl iv) then (Fail 400 ''expired'', s, [])
      else if seenNonce (nowSeen clk) (nonce iv) s then (Fail 409 ''replay'', s, [])
      else if fst (verifyWallet X (messageFromInvoice iv) wp) = Inr True
        then (Ok (makeReceipt X kp iv wp),
              rememberReceipt (makeReceipt X kp iv wp)
                (cleanupNonces (nowCleanup clk) (markNonce (nonce iv) (ts iv + ttl iv) s)),
              snd (verifyWallet X (messageFromInvoice iv) wp))
      else (Fail 401 ''bad-wallet-proof'', s, snd (verifyWallet X (messageFromInvoice iv) wp)))"
proof -
  obtain b where "fst (verifyWallet X (messageFromInvoice iv) wp) = Inr b"
    using verifyWallet_total by blast
  then show ?thesis
    by (cases "verifyWallet X (messageFromInvoice iv) wp"; cases b)
       (simp_all add: settle_def Let_def)
qed

lemma settle_missing:
  "invoice = None \<or> walletProof = None \<Longrightarrow>
     settle X kp clk invoice walletProof s = (Fail 400 ''missing-body'', s, [])"
  by (auto simp: settle_def split: option.splits)

lemma settle_Ok_receipt:
  assumes "fst (settle X kp clk invoice walletProof s) = Ok r"
  shows "\<exists>iv wp. invoice = Some iv \<and> walletProof = Some wp \<and> r = makeReceipt X kp iv wp
           \<and> isFresh (nowFresh clk) (ts iv) (ttl iv) \<and> \<not> seenNonce (nowSeen clk) (nonce iv) s
           \<and> fst (verifyWallet X (messageFromInvoice iv) wp) = Inr True"
proof (cases "invoice = None \<or> walletProof = None")
  case True
  then show ?thesis using assms by (simp add: settle_missing)
next
  case False
  then obtain iv wp where "invoice = Some iv" "walletProof = Some wp" by auto
  then show ?thesis using assms by (auto simp: settle_cases split: if_splits)
qed





section \<open>The canonical message\<close>







lemma messageFromReceipt_payer [simp]:
  "messageFromReceipt (r\<lparr>payer := p\<rparr>) = messageFromReceipt r"
  "messageFromReceipt (r\<lparr>gatewayPubkey := g\<rparr>) = messageFromReceipt r"
  "messageFromReceipt (r\<lparr>sig := sg\<rparr>) = messageFromReceipt r"
  "messageFromReceipt (r\<lparr>ttl := l\<rparr>) = messageFromReceipt r"
  by (simp_all add: messageFromReceipt_def)


section \<open>Verifying a receipt\<close>



lemma round_trip_aux:
  assumes "fst (settle X kp c0 invoice walletProof s) = Ok r"
    and "nowFresh clk - ts r \<le> ttl r"
    and "\<And>b. buffer_from_base64 X (Some (buffer_to_base64 X b)) = Inr b"
    and "\<And>m. nacl_sign_detached_verify X m (nacl_sign_detached X m (secretKey kp))
               (publicKey kp) = Inr True"
  shows "verifyReceipt X clk (Some r) s' = Ok (seenNonce (nowSeen clk) (nonce r) s')"
    and "buffer_from_base64 X (Some (gatewayPubkey r)) = Inr (publicKey kp)"
    and "verifyGateway X (messageFromReceipt r) (Some (sig r)) (publicKey kp) = Inr True"
proof -
  obtain iv wp where r: "r = makeReceipt X kp iv wp"
    using settle_Ok_receipt [OF assms(1)] by blast
  show pk: "buffer_from_base64 X (Some (gatewayPubkey r)) = Inr (publicKey kp)"
    by (simp add: r makeReceipt_def Let_def gatewayPubB64_def assms(3))
  have m: "messageFromReceipt r = messageFromInvoice iv"
    by (simp add: r makeReceipt_def Let_def messageFromReceipt_def messageFromInvoice_def)
  have sg: "sig r = buffer_to_base64 X
              (nacl_sign_detached X (messageFromInvoice iv) (secretKey kp))"
    by (simp add: r makeReceipt_def Let_def messageFromReceipt_def messageFromInvoice_def
          signGateway_def toB64_def strToBytes_def)
  show vg: "verifyGateway X (messageFromReceipt r) (Some (sig r)) (publicKey kp) = Inr True"
    by (simp add: verifyGateway_def fromB64_def sg m assms(3) assms(4) strToBytes_def)
  show "verifyReceipt X clk (Some r) s' = Ok (seenNonce (nowSeen clk) (nonce r) s')"
    using assms(2) pk vg by (simp add: verifyReceipt_def isFresh_def)
qed

section \<open>The sample settlement\<close>

lemma sample_settle:
  "settle sampleLibs sampleKeypair (instant 150) (Some sampleInvoice) (Some sampleProof) emptyStore =
     (Ok sampleReceipt, settledStore, [SolanaCall ''api.translate|0.01|SOL|n1|m1|100''])"
  by (simp add: sample_defs run_defs fun_eq_iff)

section \<open>Claims about the receipt signature\<close>




section \<open>Claims about settlement\<close>




text \<open>
  C3. settle checks in the order missing-body, expired, replay, bad-wallet-proof. A request
  without invoice or proof is rejected whatever else it holds; a stale one is rejected
  whatever the ledger and the proof are; a fresh one with a seen nonce is rejected whatever
  the proof is. For a stale or replayed request no wallet verifier is called, and the
  answer is the same under any other behaviour of the signature libraries.
\<close>

theorem settle_check_order:
  "(invoice = None \<or> walletProof = None \<longrightarrow>
      settle X kp clk invoice walletProof s = (Fail 400 ''missing-body'', s, []))
   \<and> (\<not> nowFresh clk - ts iv \<le> ttl iv \<longrightarrow>
      settle X kp clk (Some iv) (Some wp) s = (Fail 400 ''expired'', s, []))
   \<and> (nowFresh clk - ts iv \<le> ttl iv \<and> seenNonce (nowSeen clk) (nonce iv) s \<longrightarrow>
      settle X kp clk (Some iv) (Some wp) s = (Fail 409 ''replay'', s, []))
   \<and> (nowFresh clk - ts iv \<le> ttl iv \<and> \<not> seenNonce (nowSeen clk) (nonce iv) s
        \<and> fst (verifyWallet X (messageFromInvoice iv) wp) \<noteq> Inr True \<longrightarrow>
      fst (settle X kp clk (Some iv) (Some wp) s) = Fail 401 ''bad-wallet-proof'')
   \<and> (\<not> nowFresh clk - ts iv \<le> ttl iv \<or> seenNonce (nowSeen clk) (nonce iv) s \<longrightarrow>
      snd (snd (settle X kp clk (Some iv) (Some wp) s)) = []
      \<and> settle X' kp clk (Some iv) (Some wp) s = settle X kp clk (Some iv) (Some wp) s)"
proof (intro conjI impI)
  assume "invoice = None \<or> walletProof = None"
  then show "settle X kp clk invoice walletProof s = (Fail 400 ''missing-body'', s, [])"
    by (rule settle_missing)
qed (auto simp: settle_cases isFresh_def)

theorem settle_check_order_witness:
  "settle sampleLibs sampleKeypair (instant 150) None (Some sampleProof) emptyStore
     = (Fail 400 ''missing-body'', emptyStore, [])
   \<and> \<not> nowFresh (instant 200) - ts sampleInvoice \<le> ttl sampleInvoice
   \<and> settle sampleLibs sampleKeypair (instant 200) (Some sampleInvoice) (Some sampleProof) settledStore
       = (Fail 400 ''expired'', settledStore, [])
   \<and> nowFresh (instant 160) - ts sampleInvoice \<le> ttl sampleInvoice
   \<and> seenNonce (nowSeen (instant 160)) (nonce sampleInvoice) settledStore
   \<and> settle sampleLibs sampleKeypair (instant 160) (Some sampleInvoice) (Some sampleProof) settledStore
       = (Fail 409 ''replay'', settledStore, [])
   \<and> \<not> seenNonce (nowSeen (instant 160)) (nonce sampleInvoice) emptyStore
   \<and> fst (verifyWallet sampleLibs (messageFromInvoice sampleInvoice) forgedProof) \<noteq> Inr True
   \<and> fst (settle sampleLibs sampleKeypair (instant 160) (Some sampleInvoice) (Some forgedProof) emptyStore)
       = Fail 401 ''bad-wallet-proof''"
proof -
  have stale: "\<not> nowFresh (instant 200) - ts sampleInvoice \<le> ttl sampleInvoice"
    and fresh: "nowFresh (instant 160) - ts sampleInvoice \<le> ttl sampleInvoice"
    by (simp_all add: sampleInvoice_def instant_def)
  have seen: "seenNonce (nowSeen (instant 160)) (nonce sampleInvoice) settledStore"
    and unseen: "\<not> seenNonce (nowSeen (instant 160)) (nonce sampleInvoice) emptyStore"
    by (simp_all add: seenNonce_def settledStore_def emptyStore_def sampleInvoice_def instant_def)
  have forged: "fst (verifyWallet sampleLibs (messageFromInvoice sampleInvoice) forgedProof)
                  \<noteq> Inr True"
    by (simp add: sample_defs run_defs)
  show ?thesis
    using settle_check_order [where X = sampleLibs and kp = sampleKeypair and clk = "instant 150"
        and invoice = None and walletProof = "Some sampleProof" and s = emptyStore]
      settle_check_order [where X = sampleLibs and kp = sampleKeypair and clk = "instant 200"
        and iv = sampleInvoice and wp = sampleProof and s = settledStore]
      settle_check_order [where X = sampleLibs and kp = sampleKeypair and clk = "instant 160"
        and iv = sampleInvoice and wp = sampleProof and s = settledStore]
      settle_check_order [where X = sampleLibs and kp = sampleKeypair and clk = "instant 160"
        and iv = sampleInvoice and wp = forgedProof and s = emptyStore]
      stale fresh seen unseen forged
    by simp
qed

text \<open>
  C4. Let the base64 codec decode what it encoded and let the gateway's signatures verify
  under the gateway's public key. Then every receipt that settle produced, unmodified and
  still fresh, is accepted by \<^verbatim>\<open>/api/verify\<close>: the key embedded in the receipt decodes
  to the gateway's public key and the signature verifies over the receipt's canonical
  message. The answer is a success whatever the ledger holds; the ledger only sets the
  \<^verbatim>\<open>replayProtected\<close> flag.
\<close>

theorem receipt_round_trip:
  assumes "fst (settle X kp c0 invoice walletProof s) = Ok r"
    and "nowFresh clk - ts r \<le> ttl r"
    and "\<And>b. buffer_from_base64 X (Some (buffer_to_base64 X b)) = Inr b"
    and "\<And>m. nacl_sign_detached_verify X m (nacl_sign_detached X m (secretKey kp))
               (publicKey kp) = Inr True"
  shows "verifyReceipt X clk (Some r) s' = Ok (seenNonce (nowSeen clk) (nonce r) s')
       \<and> buffer_from_base64 X (Some (gatewayPubkey r)) = Inr (publicKey kp)
       \<and> verifyGateway X (messageFromReceipt r) (Some (sig r)) (publicKey kp) = Inr True"
  using round_trip_aux [OF assms] by simp

theorem receipt_round_trip_witness:
  "fst (settle sampleLibs sampleKeypair (instant 150) (Some sampleInvoice) (Some sampleProof) emptyStore)
     = Ok sampleReceipt
   \<and> nowFresh (instant 160) - ts sampleReceipt \<le> ttl sampleReceipt
   \<and> verifyReceipt sampleLibs (instant 160) (Some sampleReceipt) settledStore = Ok True
   \<and> verifyReceipt sampleLibs (instant 160) (Some sampleReceipt) emptyStore = Ok False
   \<and> verifyGateway sampleLibs (messageFromReceipt sampleReceipt) (Some (sig sampleReceipt))
         (publicKey sampleKeypair) = Inr True"
proof -
  have a: "fst (settle sampleLibs sampleKeypair (instant 150) (Some sampleInvoice) (Some sampleProof)
                  emptyStore) = Ok sampleReceipt"
    by (simp add: sample_settle)
  have b: "nowFresh (instant 160) - ts sampleReceipt \<le> ttl sampleReceipt"
    by (simp add: sampleReceipt_def instant_def)
  have c: "buffer_from_base64 sampleLibs (Some (buffer_to_base64 sampleLibs b)) = Inr b" for b
    by (simp add: sampleLibs_def)
  have d: "nacl_sign_detached_verify sampleLibs m
             (nacl_sign_detached sampleLibs m (secretKey sampleKeypair))
             (publicKey sampleKeypair) = Inr True" for m
    by (simp add: sampleLibs_def sampleKeypair_def)
  have e: "seenNonce (nowSeen (instant 160)) (nonce sampleReceipt) settledStore"
    "\<not> seenNonce (nowSeen (instant 160)) (nonce sampleReceipt) emptyStore"
    by (simp_all add: seenNonce_def settledStore_def emptyStore_def sampleReceipt_def instant_def)
  show ?thesis
    using receipt_round_trip [OF a b c d, of settledStore]
      receipt_round_trip [OF a b c d, of emptyStore] a b e
    by simp
qed



text \<open>
  C6. When the expiry window of the invoice has elapsed, settle with invoice and proof
  present answers \<^verbatim>\<open>expired\<close>, whatever the proof and the ledger are.
\<close>

theorem settle_expired:
  assumes "nowFresh clk - ts iv > ttl iv"
  shows "fst (settle X kp clk (Some iv) (Some wp) s) = Fail 400 ''expired''"
  using assms by (simp add: settle_cases isFresh_def)

theorem settle_expired_witness:
  "nowFresh (instant 200) - ts sampleInvoice > ttl sampleInvoice
   \<and> fst (settle sampleLibs sampleKeypair (instant 200) (Some sampleInvoice) (Some sampleProof) emptyStore)
       = Fail 400 ''expired''"
proof -
  have a: "nowFresh (instant 200) - ts sampleInvoice > ttl sampleInvoice"
    by (simp add: sampleInvoice_def instant_def)
  show ?thesis
    using settle_expired [OF a, of sampleLibs sampleKeypair sampleProof emptyStore] a by simp
qed

section \<open>Claims about the wallet verifiers\<close>

text \<open>
  C7. Both wallet verifiers return a boolean for every message, account and signature and
  for every behaviour of the libraries they call; they never throw. The Ed25519 verifier
  returns \<^verbatim>\<open>true\<close> exactly when the account and the signature decode and
  \<^verbatim>\<open>nacl.sign.detached.verify\<close> accepts; the recoverable one exactly when one of its two
  attempts recovers the account. An account that does not decode, a signature that does
  not decode, bytes that the library rejects with an exception and a missing account all
  give \<^verbatim>\<open>false\<close>, as an invalid proof does.
\<close>

theorem proof_verification_total:
  "verifySolanaMessage X m sg a =
     Inr (\<exists>pub bs. bs58_decode X a = Inr pub \<and> buffer_from_base64 X sg = Inr bs
                  \<and> nacl_sign_detached_verify X (strToBytes m) bs pub = Inr True)
   \<and> verifyEvmMessage X m sh a =
     Inr ((\<exists>r. ethers_verifyMessage X (Text m) sh = Inr r \<and> sameAddress r a = Inr True)
        \<or> (\<exists>bs r. ethers_getBytes X m = Inr bs \<and> ethers_verifyMessage X (Raw bs) sh = Inr r
                  \<and> sameAddress r a = Inr True))
   \<and> (bs58_decode X a = Inl e \<longrightarrow> verifySolanaMessage X m sg a = Inr False)
   \<and> (buffer_from_base64 X sg = Inl e \<longrightarrow> verifySolanaMessage X m sg a = Inr False)
   \<and> (bs58_decode X a = Inr pub \<and> buffer_from_base64 X sg = Inr bs
        \<and> nacl_sign_detached_verify X (strToBytes m) bs pub = Inl e
        \<longrightarrow> verifySolanaMessage X m sg a = Inr False)
   \<and> (ethers_verifyMessage X (Text m) sh = Inl e \<and> ethers_getBytes X m = Inl e'
        \<longrightarrow> verifyEvmMessage X m sh a = Inr False)
   \<and> (a = None \<longrightarrow> verifyEvmMessage X m sh a = Inr False)"
proof (intro conjI impI)
  show "verifyEvmMessage X m sh a = Inr False" if "a = None"
    using that by (simp add: verifyEvmMessage_raise)
qed (auto simp: verifySolanaMessage_iff verifyEvmMessage_iff
       intro: verifySolanaMessage_raise verifyEvmMessage_raise)

theorem proof_verification_total_witness:
  "bs58_decode sampleLibs None = Inl (Exn ''TypeError'')
   \<and> verifySolanaMessage sampleLibs ''msg'' (Some ''Wmsg'') None = Inr False
   \<and> buffer_from_base64 sampleLibs None = Inl (Exn ''TypeError'')
   \<and> verifySolanaMessage sampleLibs ''msg'' None (Some ''W'') = Inr False
   \<and> nacl_sign_detached_verify sampleLibs (strToBytes ''msg'') [] ''W''
       = Inl (Exn ''bad signature size'')
   \<and> verifySolanaMessage sampleLibs ''msg'' (Some []) (Some ''W'') = Inr False
   \<and> ethers_verifyMessage sampleLibs (Text ''msg'') (Some ''0x'') = Inl (Exn ''invalid signature'')
   \<and> ethers_getBytes sampleLibs ''msg'' = Inl (Exn ''invalid BytesLike value'')
   \<and> verifyEvmMessage sampleLibs ''msg'' (Some ''0x'') (Some ''0xab'') = Inr False
   \<and> verifyEvmMessage sampleLibs ''msg'' (Some ''0xabmsg'') None = Inr False
   \<and> verifySolanaMessage sampleLibs ''msg'' (Some ''Wmsg'') (Some ''W'') = Inr True
   \<and> verifyEvmMessage sampleLibs ''msg'' (Some ''0xabmsg'') (Some ''0XAB'') = Inr True"
proof -
  have a: "bs58_decode sampleLibs None = Inl (Exn ''TypeError'')"
    "buffer_from_base64 sampleLibs None = Inl (Exn ''TypeError'')"
    "bs58_decode sampleLibs (Some ''W'') = Inr ''W''"
    "buffer_from_base64 sampleLibs (Some []) = Inr []"
    "nacl_sign_detached_verify sampleLibs (strToBytes ''msg'') [] ''W''
       = Inl (Exn ''bad signature size'')"
    "ethers_verifyMessage sampleLibs (Text ''msg'') (Some ''0x'') = Inl (Exn ''invalid signature'')"
    "ethers_getBytes sampleLibs ''msg'' = Inl (Exn ''invalid BytesLike value'')"
    by (simp_all add: sampleLibs_def strToBytes_def)
  have b: "verifySolanaMessage sampleLibs ''msg'' (Some ''Wmsg'') (Some ''W'') = Inr True"
    "verifyEvmMessage sampleLibs ''msg'' (Some ''0xabmsg'') (Some ''0XAB'') = Inr True"
    by (simp_all add: sampleLibs_def run_defs)
  show ?thesis
    using proof_verification_total [where X = sampleLibs and m = "''msg''" and a = None
        and sg = "Some ''Wmsg''" and sh = "Some ''0xabmsg''" and e = "Exn ''TypeError''"
        and pub = "''W''" and bs = "[]" and e' = "Exn ''invalid BytesLike value''"]
      proof_verification_total [where X = sampleLibs and m = "''msg''" and a = "Some ''W''"
        and sg = None and sh = "Some ''0x''" and e = "Exn ''TypeError''"
        and pub = "''W''" and bs = "[]" and e' = "Exn ''invalid BytesLike value''"]
      proof_verification_total [where X = sampleLibs and m = "''msg''" and a = "Some ''W''"
        and sg = "Some []" and sh = "Some ''0x''" and e = "Exn ''bad signature size''"
        and pub = "''W''" and bs = "[]" and e' = "Exn ''invalid BytesLike value''"]
      proof_verification_total [where X = sampleLibs and m = "''msg''" and a = "Some ''0xab''"
        and sg = None and sh = "Some ''0x''" and e = "Exn ''invalid signature''"
        and pub = "''W''" and bs = "[]" and e' = "Exn ''invalid BytesLike value''"]
      a b
    by (simp add: sameAddress_None)
qed

section \<open>Claims about the module state\<close>

text \<open>
  C8. Evicting expired nonces does not change what \<^verbatim>\<open>seenNonce\<close> answers, at the time
  of the eviction or at any later time. At a positive clock value \<^verbatim>\<open>seenNonce\<close> is true
  exactly for a nonce with an entry whose expiry is at or after the current time. Eviction
  removes an entry only when its expiry has passed, leaves no such entry behind and does
  not touch the archive.
\<close>

theorem eviction_transparent:
  "seenNonce now n (cleanupNonces now s) = seenNonce now n s
   \<and> (\<forall>t. now \<le> t \<longrightarrow> seenNonce t n (cleanupNonces now s) = seenNonce t n s)
   \<and> (0 < now \<longrightarrow> seenNonce now n s = (\<exists>e. usedNonces s n = Some e \<and> now \<le> e))
   \<and> (usedNonces (cleanupNonces now s) n \<noteq> usedNonces s n \<longrightarrow>
        (\<exists>e. usedNonces s n = Some e \<and> e < now) \<and> usedNonces (cleanupNonces now s) n = None)
   \<and> (\<forall>e. usedNonces (cleanupNonces now s) n = Some e \<longrightarrow> now \<le> e)
   \<and> receipts (cleanupNonces now s) = receipts s"
  by (auto simp: seenNonce_def cleanupNonces_def split: option.splits if_splits)

theorem eviction_transparent_witness:
  "seenNonce 150 ''n0'' (cleanupNonces 150 sampleLedger) = seenNonce 150 ''n0'' sampleLedger
   \<and> (150::int) \<le> 160
   \<and> seenNonce 160 ''n1'' (cleanupNonces 150 sampleLedger) = seenNonce 160 ''n1'' sampleLedger
   \<and> (0::int) < 150
   \<and> seenNonce 150 ''n1'' sampleLedger
   \<and> usedNonces sampleLedger ''n1'' = Some 190
   \<and> \<not> seenNonce 150 ''n0'' sampleLedger
   \<and> usedNonces (cleanupNonces 150 sampleLedger) ''n0'' \<noteq> usedNonces sampleLedger ''n0''
   \<and> usedNonces sampleLedger ''n0'' = Some 100
   \<and> usedNonces (cleanupNonces 150 sampleLedger) ''n0'' = None
   \<and> usedNonces (cleanupNonces 150 sampleLedger) ''n1'' = Some 190"
  using eviction_transparent [of 150 "''n0''" sampleLedger]
    eviction_transparent [of 150 "''n1''" sampleLedger]
  by (simp add: sampleLedger_def seenNonce_def cleanupNonces_def)

text \<open>
  C9. From an archive of at most 500 receipts, any sequence of insertions leaves at most
  500 receipts with the last one inserted at the front. An insertion into an archive of
  500 keeps all but the oldest receipt, the last of the list; an insertion into a smaller
  archive keeps them all.
\<close>

theorem archive_bounded:
  assumes "length (receipts s) \<le> 500"
  shows "length (receipts (fold rememberReceipt rs s)) \<le> 500
       \<and> (rs \<noteq> [] \<longrightarrow> hd (receipts (fold rememberReceipt rs s)) = last rs)
       \<and> (length (receipts s) = 500 \<longrightarrow>
            receipts (rememberReceipt r s) = r # butlast (receipts s))
       \<and> (length (receipts s) < 500 \<longrightarrow> receipts (rememberReceipt r s) = r # receipts s)"
  using assms
  by (simp add: fold_rememberReceipt_length fold_rememberReceipt_hd rememberReceipt_receipts)

theorem archive_bounded_witness:
  "length (receipts fullArchive) \<le> 500
   \<and> length (receipts fullArchive) = 500
   \<and> [sampleReceipt\<lparr>nonce := ''n2''\<rparr>, sampleReceipt] \<noteq> []
   \<and> length (receipts (fold rememberReceipt [sampleReceipt\<lparr>nonce := ''n2''\<rparr>, sampleReceipt]
                         fullArchive)) \<le> 500
   \<and> hd (receipts (fold rememberReceipt [sampleReceipt\<lparr>nonce := ''n2''\<rparr>, sampleReceipt]
                     fullArchive)) = sampleReceipt
   \<and> receipts (rememberReceipt (sampleReceipt\<lparr>nonce := ''n2''\<rparr>) fullArchive)
       = sampleReceipt\<lparr>nonce := ''n2''\<rparr> # butlast (receipts fullArchive)
   \<and> length (receipts emptyStore) < 500
   \<and> receipts (rememberReceipt sampleReceipt emptyStore) = [sampleReceipt]"
proof -
  have a: "length (receipts fullArchive) \<le> 500" "length (receipts fullArchive) = 500"
    by (simp_all add: fullArchive_def)
  have b: "length (receipts emptyStore) \<le> 500" "length (receipts emptyStore) < 500"
    "receipts emptyStore = []"
    by (simp_all add: emptyStore_def)
  show ?thesis
    using archive_bounded [OF a(1), of "[sampleReceipt\<lparr>nonce := ''n2''\<rparr>, sampleReceipt]"
        "sampleReceipt\<lparr>nonce := ''n2''\<rparr>"]
      archive_bounded [OF b(1), of "[]" sampleReceipt] a b
    by simp
qed

section \<open>Claims about what settle does not check\<close>



end
